theory Spec2Isabelle
  imports Complex_Main "HOL-Library.Monad_Syntax"
begin

section \<open>Values of the JavaScript runtime\<close>

text \<open>
  The repository is TypeScript: a storage adapter (\<open>CosmosProductRepo\<close>) and an HTTP
  handler (\<open>listProductsHttp\<close>). Its functions are embedded as HOL functions. What the
  runtime contributes (numbers, thrown values, \<open>Date\<close>) is modelled first, as far as
  the repository's code uses it.
\<close>

subsection \<open>Numbers\<close>

text \<open>
  A JavaScript Number is a double: not-a-number, an infinity, or a finite value, which is
  a rational number. The code only copies numbers and compares them with integer
  literals, which is exact on the value.
\<close>

datatype js_number = NaN | PosInfinity | NegInfinity | Finite rat

text \<open>\<open>x >= c\<close> and \<open>x < c\<close> for a Number \<open>x\<close> and a finite literal \<open>c\<close>: every
  comparison with \<open>NaN\<close> is false.\<close>

fun num_ge :: "js_number \<Rightarrow> rat \<Rightarrow> bool" where
  "num_ge NaN c = False"
| "num_ge PosInfinity c = True"
| "num_ge NegInfinity c = False"
| "num_ge (Finite x) c = (c \<le> x)"

fun num_lt :: "js_number \<Rightarrow> rat \<Rightarrow> bool" where
  "num_lt NaN c = False"
| "num_lt PosInfinity c = False"
| "num_lt NegInfinity c = True"
| "num_lt (Finite x) c = (x < c)"

subsection \<open>Thrown failures\<close>

text \<open>
  A failure object is an \<open>Error\<close> of the runtime or of the store's client library. The
  code reads two properties of it, \<open>error.code\<close> and \<open>error.message\<close>. The client
  library declares \<open>code?: number | string\<close>; \<open>message\<close> is a string or is absent.
\<close>

datatype js_value = JUndefined | JNumber js_number | JString string

record js_error =
  error_code :: js_value
  error_message :: "string option"

text \<open>
  A \<open>catch\<close> clause binds \<open>error: any\<close>: whatever was thrown, or whatever a promise was
  rejected with. That is \<open>undefined\<close>, \<open>null\<close>, another primitive (a boolean, number,
  string, symbol or bigint, whose value the code never reads), or a failure object.
\<close>

datatype js_thrown = ThrowUndefined | ThrowNull | ThrowPrimitive | ThrowObject js_error


text \<open>A computation that either throws (\<open>Inl\<close>) or returns a value.\<close>

type_synonym 'a js_result = "js_thrown + 'a"

definition try_catch :: "'a js_result \<Rightarrow> (js_thrown \<Rightarrow> 'a js_result) \<Rightarrow> 'a js_result" where
  "try_catch body handler = (case body of Inl e \<Rightarrow> handler e | Inr v \<Rightarrow> Inr v)"

text \<open>
  Reading a property of \<open>undefined\<close> or \<open>null\<close> throws a \<open>TypeError\<close>, which has no
  \<open>code\<close>; its message is the one of V8, the engine of Node.js.
\<close>

definition TypeError :: "string \<Rightarrow> js_error" where
  "TypeError msg = \<lparr>error_code = JUndefined, error_message = Some msg\<rparr>"

definition cannot_read_code :: "string \<Rightarrow> js_error" where
  "cannot_read_code of_what =
     TypeError (''Cannot read properties of '' @ of_what @ '' (reading '' @ [CHR 0x27] @
                ''code'' @ [CHR 0x27] @ '')'')"

text \<open>
  The relational operators convert a string operand to a Number first (ToNumber). The
  result of that conversion is a double obtained by rounding, so it is left as a
  parameter \<open>StringToNumber\<close> of the model; \<open>undefined\<close> converts to \<open>NaN\<close>.
\<close>

fun ToNumber :: "(string \<Rightarrow> js_number) \<Rightarrow> js_value \<Rightarrow> js_number" where
  "ToNumber StringToNumber JUndefined = NaN"
| "ToNumber StringToNumber (JNumber n) = n"
| "ToNumber StringToNumber (JString s) = StringToNumber s"

text \<open>\<open>v === c\<close> for a numeric literal \<open>c\<close>: no conversion, so only a Number can be
  strictly equal to it.\<close>

fun strict_eq_num :: "js_value \<Rightarrow> rat \<Rightarrow> bool" where
  "strict_eq_num (JNumber (Finite x)) c = (x = c)"
| "strict_eq_num v c = False"

text \<open>\<open>m || fallback\<close> on an optional string: the empty string and \<open>undefined\<close> are
  falsy.\<close>

fun or_else :: "string option \<Rightarrow> string \<Rightarrow> string" where
  "or_else None fallback = fallback"
| "or_else (Some m) fallback = (if m = [] then fallback else m)"

subsection \<open>Dates\<close>

text \<open>
  A \<open>Date\<close> object holds a time value: \<open>NaN\<close> (an invalid date) or an integral number
  of milliseconds since the epoch, at most \<open>8.64e15\<close> in absolute value. The functions
  below are the abstract operations of ECMA-262 (section "Date Objects") under the names
  the standard gives them; they belong to the runtime, not to the repository.
\<close>

datatype Date = InvalidDate | TimeValue int

definition valid_time :: "int \<Rightarrow> bool" where
  "valid_time t = (\<bar>t\<bar> \<le> 8640000000000000)"

definition TimeClip :: "int \<Rightarrow> Date" where
  "TimeClip t = (if \<bar>t\<bar> > 8640000000000000 then InvalidDate else TimeValue t)"

definition msPerDay :: int where "msPerDay = 86400000"
definition msPerHour :: int where "msPerHour = 3600000"
definition msPerMinute :: int where "msPerMinute = 60000"
definition msPerSecond :: int where "msPerSecond = 1000"

definition Day :: "int \<Rightarrow> int" where
  "Day t = t div msPerDay"

definition TimeWithinDay :: "int \<Rightarrow> int" where
  "TimeWithinDay t = t mod msPerDay"

definition DaysInYear :: "int \<Rightarrow> int" where
  "DaysInYear y =
     (if y mod 4 \<noteq> 0 then 365
      else if y mod 100 \<noteq> 0 then 366
      else if y mod 400 \<noteq> 0 then 365
      else 366)"

definition DayFromYear :: "int \<Rightarrow> int" where
  "DayFromYear y =
     365 * (y - 1970) + (y - 1969) div 4 - (y - 1901) div 100 + (y - 1601) div 400"

definition TimeFromYear :: "int \<Rightarrow> int" where
  "TimeFromYear y = msPerDay * DayFromYear y"

text \<open>
  The standard defines \<open>YearFromTime(t)\<close> as the largest \<open>y\<close> with
  \<open>TimeFromYear(y) \<le> t\<close>. It is computed here from an estimate of the year that is off
  by at most one; \<open>YearFromTime_bounds\<close> below shows that the result is that year.
\<close>

definition YearFromTime :: "int \<Rightarrow> int" where
  "YearFromTime t =
     (let d = Day t; y = 1970 + (400 * d) div 146097
      in if DayFromYear (y + 1) \<le> d then y + 1
         else if DayFromYear y \<le> d then y
         else y - 1)"

definition InLeapYear :: "int \<Rightarrow> int" where
  "InLeapYear t = (if DaysInYear (YearFromTime t) = 366 then 1 else 0)"

definition DayWithinYear :: "int \<Rightarrow> int" where
  "DayWithinYear t = Day t - DayFromYear (YearFromTime t)"

definition MonthFromTime :: "int \<Rightarrow> int" where
  "MonthFromTime t =
     (let d = DayWithinYear t; l = InLeapYear t
      in if d < 31 then 0
         else if d < 59 + l then 1
         else if d < 90 + l then 2
         else if d < 120 + l then 3
         else if d < 151 + l then 4
         else if d < 181 + l then 5
         else if d < 212 + l then 6
         else if d < 243 + l then 7
         else if d < 273 + l then 8
         else if d < 304 + l then 9
         else if d < 334 + l then 10
         else 11)"

definition DateFromTime :: "int \<Rightarrow> int" where
  "DateFromTime t =
     (let d = DayWithinYear t; l = InLeapYear t; m = MonthFromTime t
      in if m = 0 then d + 1
         else if m = 1 then d - 30
         else if m = 2 then d - 58 - l
         else if m = 3 then d - 89 - l
         else if m = 4 then d - 119 - l
         else if m = 5 then d - 150 - l
         else if m = 6 then d - 180 - l
         else if m = 7 then d - 211 - l
         else if m = 8 then d - 242 - l
         else if m = 9 then d - 272 - l
         else if m = 10 then d - 303 - l
         else d - 333 - l)"

definition HourFromTime :: "int \<Rightarrow> int" where
  "HourFromTime t = (t div msPerHour) mod 24"

definition MinFromTime :: "int \<Rightarrow> int" where
  "MinFromTime t = (t div msPerMinute) mod 60"

definition SecFromTime :: "int \<Rightarrow> int" where
  "SecFromTime t = (t div msPerSecond) mod 60"

definition msFromTime :: "int \<Rightarrow> int" where
  "msFromTime t = t mod msPerSecond"

definition MakeTime :: "int \<Rightarrow> int \<Rightarrow> int \<Rightarrow> int \<Rightarrow> int" where
  "MakeTime hour minute sec ms =
     hour * msPerHour + minute * msPerMinute + sec * msPerSecond + ms"

text \<open>The number of days of year \<open>y\<close> before its month \<open>m\<close> (0 to 11), and the length
  of that month.\<close>

definition DaysBeforeMonth :: "int \<Rightarrow> int \<Rightarrow> int" where
  "DaysBeforeMonth y m =
     (let l = (if DaysInYear y = 366 then 1 else 0)
      in if m = 0 then 0
         else if m = 1 then 31
         else if m = 2 then 59 + l
         else if m = 3 then 90 + l
         else if m = 4 then 120 + l
         else if m = 5 then 151 + l
         else if m = 6 then 181 + l
         else if m = 7 then 212 + l
         else if m = 8 then 243 + l
         else if m = 9 then 273 + l
         else if m = 10 then 304 + l
         else 334 + l)"

definition DaysInMonth :: "int \<Rightarrow> int \<Rightarrow> int" where
  "DaysInMonth y m =
     (if m = 1 then (if DaysInYear y = 366 then 29 else 28)
      else if m = 3 \<or> m = 5 \<or> m = 8 \<or> m = 10 then 30
      else 31)"

text \<open>
  \<open>MakeDay\<close>: the standard asks for a time value in year \<open>ym\<close>, month \<open>mn\<close>, on the
  first of the month, and returns its day number plus \<open>date - 1\<close>; that day number is
  \<open>DayFromYear ym + DaysBeforeMonth ym mn\<close>.
\<close>

definition MakeDay :: "int \<Rightarrow> int \<Rightarrow> int \<Rightarrow> int" where
  "MakeDay year month date =
     (let ym = year + month div 12; mn = month mod 12
      in DayFromYear ym + DaysBeforeMonth ym mn + date - 1)"

definition MakeDate :: "int \<Rightarrow> int \<Rightarrow> int" where
  "MakeDate day time = day * msPerDay + time"

text \<open>Decimal digits of fixed width, most significant first, and reading them back.\<close>

definition digit_char :: "nat \<Rightarrow> char" where
  "digit_char d = ''0123456789'' ! d"

definition digit_val :: "char \<Rightarrow> nat option" where
  "digit_val c = map_of (zip ''0123456789'' [0, 1, 2, 3, 4, 5, 6, 7, 8, 9]) c"

fun digits :: "nat \<Rightarrow> nat \<Rightarrow> string" where
  "digits 0 n = []"
| "digits (Suc w) n = digit_char (n div 10 ^ w mod 10) # digits w n"

fun read_digits :: "nat \<Rightarrow> string \<Rightarrow> (nat \<times> string) option" where
  "read_digits 0 s = Some (0, s)"
| "read_digits (Suc w) [] = None"
| "read_digits (Suc w) (c # s) =
     (case digit_val c of
        None \<Rightarrow> None
      | Some d \<Rightarrow> (case read_digits w s of
                    None \<Rightarrow> None
                  | Some (v, r) \<Rightarrow> Some (d * 10 ^ w + v, r)))"

definition expect :: "char \<Rightarrow> string \<Rightarrow> string option" where
  "expect c s = (case s of [] \<Rightarrow> None | x # r \<Rightarrow> if x = c then Some r else None)"

text \<open>
  The Date Time String Format on the UTC time scale with all format elements,
  \<open>YYYY-MM-DDTHH:mm:ss.sssZ\<close>; a year outside 0 to 9999 is written as an expanded year,
  a sign and six digits.
\<close>

definition year_string :: "int \<Rightarrow> string" where
  "year_string y =
     (if 0 \<le> y \<and> y \<le> 9999 then digits 4 (nat y)
      else (if y < 0 then CHR ''-'' else CHR ''+'') # digits 6 (nat \<bar>y\<bar>))"

definition date_time_string :: "int \<Rightarrow> string" where
  "date_time_string t =
     year_string (YearFromTime t) @ ''-'' @
     digits 2 (nat (MonthFromTime t + 1)) @ ''-'' @
     digits 2 (nat (DateFromTime t)) @ ''T'' @
     digits 2 (nat (HourFromTime t)) @ '':'' @
     digits 2 (nat (MinFromTime t)) @ '':'' @
     digits 2 (nat (SecFromTime t)) @ ''.'' @
     digits 3 (nat (msFromTime t)) @ ''Z''"

text \<open>
  \<open>Date.prototype.toISOString\<close> throws a \<open>RangeError\<close> on an invalid date. A
  \<open>RangeError\<close> has no \<open>code\<close>; its message is the one of V8, the engine of Node.js.
\<close>

definition RangeError :: "string \<Rightarrow> js_error" where
  "RangeError msg = \<lparr>error_code = JUndefined, error_message = Some msg\<rparr>"

definition toISOString :: "Date \<Rightarrow> string js_result" where
  "toISOString d =
     (case d of
        InvalidDate \<Rightarrow> Inl (ThrowObject (RangeError ''Invalid time value''))
      | TimeValue t \<Rightarrow> Inr (date_time_string t))"

text \<open>
  Parsing. \<open>parse_date_time\<close> recognises the same complete UTC form and yields the time
  value that \<open>MakeDate\<close>, \<open>MakeDay\<close> and \<open>MakeTime\<close> give for its fields; a string
  that is not of this form, or has a field out of bounds, yields \<open>None\<close>.
\<close>

definition parse_year :: "string \<Rightarrow> (int \<times> string) option" where
  "parse_year s =
     (case s of
        [] \<Rightarrow> None
      | c # r \<Rightarrow>
          if c = CHR ''+'' then
            (case read_digits 6 r of None \<Rightarrow> None | Some (y, r') \<Rightarrow> Some (int y, r'))
          else if c = CHR ''-'' then
            (case read_digits 6 r of
               None \<Rightarrow> None
             | Some (y, r') \<Rightarrow> if y = 0 then None else Some (- int y, r'))
          else
            (case read_digits 4 s of None \<Rightarrow> None | Some (y, r') \<Rightarrow> Some (int y, r')))"

definition fields_in_bounds :: "int \<Rightarrow> int \<Rightarrow> int \<Rightarrow> int \<Rightarrow> int \<Rightarrow> int \<Rightarrow> int \<Rightarrow> bool" where
  "fields_in_bounds y mo d h mi sec ms =
     (1 \<le> mo \<and> mo \<le> 12 \<and> 1 \<le> d \<and> d \<le> DaysInMonth y (mo - 1) \<and>
      h \<le> 24 \<and> mi \<le> 59 \<and> sec \<le> 59 \<and> (h = 24 \<longrightarrow> mi = 0 \<and> sec = 0 \<and> ms = 0))"

definition parse_date_time :: "string \<Rightarrow> int option" where
  "parse_date_time s =
     do {
       (y, s) \<leftarrow> parse_year s;
       s \<leftarrow> expect CHR ''-'' s;
       (mo, s) \<leftarrow> read_digits 2 s;
       s \<leftarrow> expect CHR ''-'' s;
       (d, s) \<leftarrow> read_digits 2 s;
       s \<leftarrow> expect CHR ''T'' s;
       (h, s) \<leftarrow> read_digits 2 s;
       s \<leftarrow> expect CHR '':'' s;
       (mi, s) \<leftarrow> read_digits 2 s;
       s \<leftarrow> expect CHR '':'' s;
       (sec, s) \<leftarrow> read_digits 2 s;
       s \<leftarrow> expect CHR ''.'' s;
       (ms, s) \<leftarrow> read_digits 3 s;
       s \<leftarrow> expect CHR ''Z'' s;
       if s = [] \<and> fields_in_bounds y (int mo) (int d) (int h) (int mi) (int sec) (int ms)
       then Some (MakeDate (MakeDay y (int mo - 1) (int d))
                           (MakeTime (int h) (int mi) (int sec) (int ms)))
       else None
     }"

text \<open>
  \<open>new Date(string)\<close>. For a string that is not in the format above the standard lets
  the runtime fall back to formats of its own (and the shorter forms of the format depend
  on the local time zone): that part is the parameter \<open>fallback\<close>.
\<close>

definition new_Date :: "(string \<Rightarrow> Date) \<Rightarrow> string \<Rightarrow> Date" where
  "new_Date fallback s =
     (case parse_date_time s of Some t \<Rightarrow> TimeClip t | None \<Rightarrow> fallback s)"

section \<open>The domain types\<close>

text \<open>
  Modelled from the spec: the declarations of \<open>Product\<close>, \<open>RepositoryError\<close> and
  \<open>RepositoryResult\<close> are in \<open>domain/product.ts\<close> and \<open>domain/product-repo.ts\<close>, which
  the adapter imports and which are not among the source files. The fields are those the
  spec lists in its data model and the adapter reads and writes. Field \<open>f\<close> of a
  \<open>Product\<close> is \<open>product_f\<close> here. An optional field is an \<open>option\<close>.
\<close>

record Product =
  product_id :: string
  product_name :: string
  product_price :: js_number
  product_category :: string
  product_description :: "string option"
  product_inStock :: bool
  product_createdAt :: Date

datatype RepositoryErrorCode = ALREADY_EXISTS | NOT_FOUND | VALIDATION_ERROR | PERSISTENCE_ERROR

record RepositoryError =
  code :: RepositoryErrorCode
  message :: string

text \<open>
  A \<open>RepositoryResult\<close> is an object with the flag \<open>success\<close> and the optional
  properties \<open>data\<close> and \<open>error\<close>; the adapter builds it as an object literal, so which
  properties are present is a property of the code, not of the type.
\<close>

record 'a RepositoryResult =
  success :: bool
  data :: "'a option"
  error :: "RepositoryError option"

section \<open>The storage adapter: \<open>CosmosProductRepo\<close>\<close>

text \<open>
  The interface \<open>ProductDocument\<close> of the adapter. Field \<open>f\<close> is \<open>doc_f\<close>; the system
  properties \<open>_rid\<close>, \<open>_self\<close>, \<open>_etag\<close>, \<open>_attachments\<close> and \<open>_ts\<close> are \<open>doc_rid\<close>
  to \<open>doc_ts\<close>.
\<close>

record ProductDocument =
  doc_id :: string
  doc_name :: string
  doc_price :: js_number
  doc_category :: string
  doc_description :: "string option"
  doc_inStock :: bool
  doc_createdAt :: string
  doc_rid :: "string option"
  doc_self :: "string option"
  doc_etag :: "string option"
  doc_attachments :: "string option"
  doc_ts :: "js_number option"

text \<open>
  The store's client. The adapter makes two calls on its \<open>container\<close>:
  \<open>container.items.create(document, options)\<close> and \<open>container.item(id, partitionKey).read()\<close>.
  Each either throws or returns an \<open>ItemResponse\<close>, of which the adapter reads
  \<open>resource\<close>. The store is outside the repository: a \<open>Container\<close> gives the outcome
  of each call.
\<close>

record RequestOptions =
  disableAutomaticIdGeneration :: bool

record ItemResponse =
  resource :: "ProductDocument option"

record Container =
  items_create :: "ProductDocument \<Rightarrow> RequestOptions \<Rightarrow> ItemResponse js_result"
  item_read :: "string \<Rightarrow> string \<Rightarrow> ItemResponse js_result"

text \<open>
  What the model leaves to the runtime: the conversion of a string to a Number, the
  parsing of date strings outside the format of \<open>toISOString\<close>, and the system clock
  (\<open>clock k\<close> is the reading of the \<open>k\<close>-th \<open>new Date()\<close> of an invocation, counted
  from 0).
\<close>

record runtime =
  StringToNumber :: "string \<Rightarrow> js_number"
  Date_parse_fallback :: "string \<Rightarrow> Date"
  clock :: "nat \<Rightarrow> int"

text \<open>\<open>toDocument\<close>: the object literal has the seven domain properties and no other;
  \<open>toISOString\<close> may throw.\<close>

definition toDocument :: "Product \<Rightarrow> ProductDocument js_result" where
  "toDocument product =
     (case toISOString (product_createdAt product) of
        Inl thrown \<Rightarrow> Inl thrown
      | Inr createdAt \<Rightarrow>
          Inr \<lparr>doc_id = product_id product,
               doc_name = product_name product,
               doc_price = product_price product,
               doc_category = product_category product,
               doc_description = product_description product,
               doc_inStock = product_inStock product,
               doc_createdAt = createdAt,
               doc_rid = None, doc_self = None, doc_etag = None,
               doc_attachments = None, doc_ts = None\<rparr>)"

definition toDomain :: "runtime \<Rightarrow> ProductDocument \<Rightarrow> Product" where
  "toDomain rt document =
     \<lparr>product_id = doc_id document,
      product_name = doc_name document,
      product_price = doc_price document,
      product_category = doc_category document,
      product_description = doc_description document,
      product_inStock = doc_inStock document,
      product_createdAt = new_Date (Date_parse_fallback rt) (doc_createdAt document)\<rparr>"

text \<open>\<open>mapCosmosError\<close> on a failure object: the four tests of the source, in its order.\<close>

definition mapCosmosError :: "runtime \<Rightarrow> js_error \<Rightarrow> RepositoryError" where
  "mapCosmosError rt err =
     (if strict_eq_num (error_code err) 409 then
        \<lparr>code = ALREADY_EXISTS, message = ''A product with this ID already exists''\<rparr>
      else if strict_eq_num (error_code err) 404 then
        \<lparr>code = NOT_FOUND, message = ''Product not found''\<rparr>
      else if num_ge (ToNumber (StringToNumber rt) (error_code err)) 400 \<and>
              num_lt (ToNumber (StringToNumber rt) (error_code err)) 500 then
        \<lparr>code = VALIDATION_ERROR,
         message = or_else (error_message err) ''Invalid request''\<rparr>
      else
        \<lparr>code = PERSISTENCE_ERROR,
         message = or_else (error_message err)
                     ''An error occurred while accessing the database''\<rparr>)"

text \<open>
  The parameter of \<open>mapCosmosError\<close> is typed \<open>any\<close>, and the \<open>catch\<close> clauses pass it
  whatever they caught. The function begins by reading \<open>error.code\<close>: on \<open>undefined\<close> or
  \<open>null\<close> that read throws; a primitive has neither a \<open>code\<close> nor a \<open>message\<close>; on a
  failure object the function is \<open>mapCosmosError\<close> above.
\<close>

definition mapCosmosError_any :: "runtime \<Rightarrow> js_thrown \<Rightarrow> RepositoryError js_result" where
  "mapCosmosError_any rt thrown =
     (case thrown of
        ThrowUndefined \<Rightarrow> Inl (ThrowObject (cannot_read_code ''undefined''))
      | ThrowNull \<Rightarrow> Inl (ThrowObject (cannot_read_code ''null''))
      | ThrowPrimitive \<Rightarrow>
          Inr (mapCosmosError rt \<lparr>error_code = JUndefined, error_message = None\<rparr>)
      | ThrowObject err \<Rightarrow> Inr (mapCosmosError rt err))"

text \<open>
  \<open>create\<close> and \<open>get\<close> are \<open>async\<close>: a rejected promise is a thrown value (\<open>Inl\<close>), a
  fulfilled one a returned value. The whole body of each is inside \<open>try\<close>; the \<open>catch\<close>
  clause calls \<open>mapCosmosError\<close> on what it caught, outside any \<open>try\<close>.
\<close>

definition create :: "runtime \<Rightarrow> Container \<Rightarrow> Product \<Rightarrow> Product RepositoryResult js_result" where
  "create rt container product =
     try_catch
       (case toDocument product of
          Inl thrown \<Rightarrow> Inl thrown
        | Inr document \<Rightarrow>
            (case items_create container document \<lparr>disableAutomaticIdGeneration = True\<rparr> of
               Inl thrown \<Rightarrow> Inl thrown
             | Inr response \<Rightarrow>
                 (case resource response of
                    Some r \<Rightarrow>
                      Inr \<lparr>success = True, data = Some (toDomain rt r), error = None\<rparr>
                  | None \<Rightarrow>
                      Inr \<lparr>success = False, data = None,
                           error = Some \<lparr>code = PERSISTENCE_ERROR,
                             message = ''Failed to create product - no resource returned''\<rparr>\<rparr>)))
       (\<lambda>err. case mapCosmosError_any rt err of
                Inl thrown \<Rightarrow> Inl thrown
              | Inr translated \<Rightarrow>
                  Inr \<lparr>success = False, data = None, error = Some translated\<rparr>)"

definition get :: "runtime \<Rightarrow> Container \<Rightarrow> string \<Rightarrow> Product RepositoryResult js_result" where
  "get rt container ident =
     try_catch
       (case item_read container ident ident of
          Inl thrown \<Rightarrow> Inl thrown
        | Inr response \<Rightarrow>
            (case resource response of
               Some r \<Rightarrow>
                 Inr \<lparr>success = True, data = Some (toDomain rt r), error = None\<rparr>
             | None \<Rightarrow>
                 Inr \<lparr>success = False, data = None,
                      error = Some \<lparr>code = NOT_FOUND,
                        message = ''Product with ID '' @ [CHR 0x27] @ ident @ [CHR 0x27] @
                                  '' not found''\<rparr>\<rparr>))
       (\<lambda>err. case mapCosmosError_any rt err of
                Inl thrown \<Rightarrow> Inl thrown
              | Inr translated \<Rightarrow>
                  Inr \<lparr>success = False, data = None, error = Some translated\<rparr>)"

section \<open>The HTTP endpoint: \<open>listProductsHttp\<close>\<close>

text \<open>
  The envelope \<open>ListProductsResponse\<close> of the handler (its properties \<open>success\<close>,
  \<open>data\<close>, \<open>error\<close> and \<open>metadata\<close> are \<open>response_success\<close> to \<open>response_metadata\<close>)
  and the \<open>HttpResponseInit\<close> it returns. The headers are the properties of an object
  literal, in order.
\<close>

record ListProductsError =
  list_error_code :: string
  list_error_message :: string

record ListProductsMetadata =
  count :: nat
  timestamp :: string

record ListProductsResponse =
  response_success :: bool
  response_data :: "Product list option"
  response_error :: "ListProductsError option"
  response_metadata :: "ListProductsMetadata option"

record HttpResponseInit =
  status :: nat
  headers :: "(string \<times> string) list"
  body :: string

text \<open>\<open>context.log(...)\<close> appends its arguments to the log of the invocation.\<close>

datatype log_arg = LogString string | LogError js_thrown

record InvocationContext =
  logged :: "log_arg list list"

definition context_log :: "InvocationContext \<Rightarrow> log_arg list \<Rightarrow> InvocationContext" where
  "context_log context args = context\<lparr>logged := logged context @ [args]\<rparr>"

text \<open>\<open>new Date()\<close> reads the clock; a reading that is no time value is an invalid
  date.\<close>

definition Date_now :: "runtime \<Rightarrow> nat \<Rightarrow> Date" where
  "Date_now rt k = TimeClip (clock rt k)"

text \<open>The literals \<open>99.99\<close> and \<open>49.99\<close> stand for the doubles nearest to them.\<close>

definition mockProducts :: "runtime \<Rightarrow> Product list" where
  "mockProducts rt =
     [\<lparr>product_id = ''PROD-001'',
       product_name = ''Sample Product 1'',
       product_price = Finite (9999 / 100),
       product_category = ''Electronics'',
       product_description = Some ''A sample product for demonstration'',
       product_inStock = True,
       product_createdAt = Date_now rt 0\<rparr>,
      \<lparr>product_id = ''PROD-002'',
       product_name = ''Sample Product 2'',
       product_price = Finite (4999 / 100),
       product_category = ''Accessories'',
       product_description = None,
       product_inStock = False,
       product_createdAt = Date_now rt 1\<rparr>]"

text \<open>The envelope \<open>response\<close> that the \<open>try\<close> block builds; \<open>toISOString\<close> may throw.\<close>

definition listProductsResponse :: "runtime \<Rightarrow> ListProductsResponse js_result" where
  "listProductsResponse rt =
     (case toISOString (Date_now rt 2) of
        Inl thrown \<Rightarrow> Inl thrown
      | Inr now \<Rightarrow>
          Inr \<lparr>response_success = True,
               response_data = Some (mockProducts rt),
               response_error = None,
               response_metadata =
                 Some \<lparr>count = length (mockProducts rt), timestamp = now\<rparr>\<rparr>)"

definition errorResponse :: ListProductsResponse where
  "errorResponse =
     \<lparr>response_success = False,
      response_data = None,
      response_error =
        Some \<lparr>list_error_code = ''INTERNAL_ERROR'',
              list_error_message = ''An unexpected error occurred while listing products''\<rparr>,
      response_metadata = None\<rparr>"

text \<open>
  The handler. \<open>JSON.stringify\<close> is a parameter: the claims are about the envelope that is
  serialised. \<open>productRepo\<close> is the adapter that the module constructs when it is loaded,
  \<open>request\<close> the HTTP request; the result is the response and the context after logging.
\<close>

definition listProductsHttp ::
  "(ListProductsResponse \<Rightarrow> string) \<Rightarrow> runtime \<Rightarrow> 'repo \<Rightarrow> 'request \<Rightarrow>
   InvocationContext \<Rightarrow> HttpResponseInit \<times> InvocationContext" where
  "listProductsHttp JSON_stringify rt productRepo request context =
     (let context1 = context_log context
            [LogString ''HTTP trigger function processed a request to list products'']
      in case listProductsResponse rt of
           Inr response \<Rightarrow>
             (\<lparr>status = 200,
               headers = [(''Content-Type'', ''application/json''),
                          (''Cache-Control'', ''no-cache'')],
               body = JSON_stringify response\<rparr>,
              context1)
         | Inl err \<Rightarrow>
             (\<lparr>status = 500,
               headers = [(''Content-Type'', ''application/json'')],
               body = JSON_stringify errorResponse\<rparr>,
              context_log context1 [LogString ''Error listing products:'', LogError err]))"

section \<open>Stated properties and examples\<close>

text \<open>
  The invariant of a \<open>RepositoryResult\<close>: either \<open>success\<close> with \<open>data\<close> and no
  \<open>error\<close>, or no \<open>success\<close> with \<open>error\<close> and no \<open>data\<close>.
\<close>

definition exactly_one_variant :: "'a RepositoryResult \<Rightarrow> bool" where
  "exactly_one_variant r =
     ((success r \<and> data r \<noteq> None \<and> error r = None) \<or>
      (\<not> success r \<and> data r = None \<and> error r \<noteq> None))"

text \<open>Two documents with the same domain fields; a document without system properties.\<close>

definition same_domain_fields :: "ProductDocument \<Rightarrow> ProductDocument \<Rightarrow> bool" where
  "same_domain_fields d d' =
     (doc_id d = doc_id d' \<and> doc_name d = doc_name d' \<and> doc_price d = doc_price d' \<and>
      doc_category d = doc_category d' \<and> doc_description d = doc_description d' \<and>
      doc_inStock d = doc_inStock d' \<and> doc_createdAt d = doc_createdAt d')"

definition no_metadata :: "ProductDocument \<Rightarrow> bool" where
  "no_metadata d =
     (doc_rid d = None \<and> doc_self d = None \<and> doc_etag d = None \<and>
      doc_attachments d = None \<and> doc_ts d = None)"

text \<open>A code in the range of the client errors: a finite number from 400 up to, not
  including, 500.\<close>

fun in_4xx :: "js_number \<Rightarrow> bool" where
  "in_4xx (Finite x) = (400 \<le> x \<and> x < 500)"
| "in_4xx n = False"

text \<open>
  The translation policy in the words of the spec: the message of the failure is passed
  through, and the fallback is used when the message is absent.
\<close>

definition message_or_absent :: "string option \<Rightarrow> string \<Rightarrow> string" where
  "message_or_absent m fallback = (case m of None \<Rightarrow> fallback | Some text \<Rightarrow> text)"

definition stated_policy :: "runtime \<Rightarrow> js_error \<Rightarrow> RepositoryError" where
  "stated_policy rt err =
     (if error_code err = JNumber (Finite 409) then
        \<lparr>code = ALREADY_EXISTS, message = ''A product with this ID already exists''\<rparr>
      else if error_code err = JNumber (Finite 404) then
        \<lparr>code = NOT_FOUND, message = ''Product not found''\<rparr>
      else if in_4xx (ToNumber (StringToNumber rt) (error_code err)) then
        \<lparr>code = VALIDATION_ERROR,
         message = message_or_absent (error_message err) ''Invalid request''\<rparr>
      else
        \<lparr>code = PERSISTENCE_ERROR,
         message = message_or_absent (error_message err)
                     ''An error occurred while accessing the database''\<rparr>)"

text \<open>
  Inputs for the examples: a runtime whose \<open>StringToNumber\<close> reads strings of decimal
  digits and takes every other string to \<open>NaN\<close>, and a store that answers by the id.
\<close>

definition example_runtime :: runtime where
  "example_runtime =
     \<lparr>StringToNumber =
        (\<lambda>s. case read_digits (length s) s of
               Some (n, r) \<Rightarrow> Finite (of_nat n)
             | None \<Rightarrow> NaN),
      Date_parse_fallback = (\<lambda>s. InvalidDate),
      clock = (\<lambda>k. 1700000000000 + int k)\<rparr>"

definition later_runtime :: runtime where
  "later_runtime = example_runtime\<lparr>clock := (\<lambda>k. 1700000060000 + int k)\<rparr>"

definition example_product :: Product where
  "example_product =
     \<lparr>product_id = ''PROD-100'',
      product_name = ''Laptop'',
      product_price = Finite 1299,
      product_category = ''Electronics'',
      product_description = None,
      product_inStock = True,
      product_createdAt = TimeValue 1700000000123\<rparr>"

definition stored_document :: ProductDocument where
  "stored_document =
     \<lparr>doc_id = ''PROD-100'',
      doc_name = ''Laptop (stored)'',
      doc_price = Finite 1299,
      doc_category = ''Electronics'',
      doc_description = None,
      doc_inStock = True,
      doc_createdAt = ''2023-11-14T22:13:20.123Z'',
      doc_rid = Some ''rid-1'', doc_self = Some ''dbs/1/colls/1/docs/1'',
      doc_etag = Some ''etag-1'', doc_attachments = Some ''attachments/'',
      doc_ts = Some (Finite 1700000000)\<rparr>"

definition conflict_error :: js_error where
  "conflict_error = \<lparr>error_code = JNumber (Finite 409), error_message = Some ''Conflict''\<rparr>"

definition network_error :: js_error where
  "network_error =
     \<lparr>error_code = JString ''ECONNREFUSED'', error_message = Some ''connect ECONNREFUSED''\<rparr>"

definition example_container :: Container where
  "example_container =
     \<lparr>items_create =
        (\<lambda>document options.
           if doc_id document = ''PROD-409'' then Inl (ThrowObject conflict_error)
           else if doc_id document = ''PROD-000'' then Inr \<lparr>resource = None\<rparr>
           else Inr \<lparr>resource = Some stored_document\<rparr>),
      item_read =
        (\<lambda>ident partitionKey.
           if ident = ''PROD-100'' \<and> partitionKey = ident
           then Inr \<lparr>resource = Some stored_document\<rparr>
           else if ident = ''PROD-503'' then Inl (ThrowObject network_error)
           else Inr \<lparr>resource = None\<rparr>)\<rparr>"


section \<open>Properties of the runtime model\<close>

subsection \<open>Digits\<close>

lemma less_ten_cases: "d < 10 \<Longrightarrow> d \<in> {0, 1, 2, 3, 4, 5, 6, 7, 8, 9}" for d :: nat
  by auto

lemma digit_val_digit_char: "d < 10 \<Longrightarrow> digit_val (digit_char d) = Some d"
  by (drule less_ten_cases) (auto simp add: digit_val_def digit_char_def)

lemma digit_char_not_sign:
  "d < 10 \<Longrightarrow> digit_char d \<noteq> CHR ''+'' \<and> digit_char d \<noteq> CHR ''-''"
  by (drule less_ten_cases) (auto simp add: digit_char_def)

lemma read_digits_digits: "read_digits w (digits w n @ r) = Some (n mod 10 ^ w, r)"
proof (induction w)
  case 0
  show ?case by simp
next
  case (Suc w)
  have "n mod 10 ^ Suc w = 10 ^ w * (n div 10 ^ w mod 10) + n mod 10 ^ w"
    using mod_mult2_eq [of n "10 ^ w" 10] by (simp only: power_Suc2)
  then show ?case
    using Suc by (simp add: digit_val_digit_char del: power_Suc)
qed

lemma read_digits_nat:
  assumes "0 \<le> n" "n < 10 ^ w"
  shows "read_digits w (digits w (nat n) @ r) = Some (nat n, r)"
proof -
  have "nat n < 10 ^ w"
    using assms by (simp add: nat_less_iff)
  then show ?thesis
    by (simp add: read_digits_digits)
qed

lemma digits_first:
  assumes "0 < w"
  obtains c rest where "digits w n = c # rest" "c \<noteq> CHR ''+''" "c \<noteq> CHR ''-''"
proof (cases w)
  case 0
  with assms show ?thesis by simp
next
  case (Suc v)
  have "n div 10 ^ v mod 10 < 10" by simp
  from digit_char_not_sign [OF this] Suc that show ?thesis by simp
qed

lemma parse_year_string:
  assumes "- 999999 \<le> y" "y \<le> 999999"
  shows "parse_year (year_string y @ r) = Some (y, r)"
proof (cases "0 \<le> y \<and> y \<le> 9999")
  case True
  obtain c rest where e: "digits 4 (nat y) = c # rest" and ns: "c \<noteq> CHR ''+''" "c \<noteq> CHR ''-''"
    by (rule digits_first [of 4 "nat y"]) simp
  have "parse_year (year_string y @ r) = parse_year ((c # rest) @ r)"
    using True by (simp add: year_string_def e)
  also have "\<dots> = (case read_digits 4 ((c # rest) @ r) of
                      None \<Rightarrow> None | Some (y, r') \<Rightarrow> Some (int y, r'))"
    using ns by (simp add: parse_year_def)
  also have "\<dots> = Some (y, r)"
    unfolding e [symmetric] using True by (simp add: read_digits_nat)
  finally show ?thesis .
next
  case False
  show ?thesis
  proof (cases "y < 0")
    case True
    have "read_digits 6 (digits 6 (nat \<bar>y\<bar>) @ r) = Some (nat \<bar>y\<bar>, r)"
      using assms by (intro read_digits_nat) simp_all
    then show ?thesis
      using True by (simp add: year_string_def parse_year_def)
  next
    case pos: False
    have "read_digits 6 (digits 6 (nat \<bar>y\<bar>) @ r) = Some (nat \<bar>y\<bar>, r)"
      using assms by (intro read_digits_nat) simp_all
    then show ?thesis
      using False pos by (simp add: year_string_def parse_year_def)
  qed
qed

subsection \<open>Calendar arithmetic\<close>

lemma div_succ:
  fixes a n :: int
  assumes "0 < n"
  shows "(a + 1) div n = a div n + (if (a + 1) mod n = 0 then 1 else 0)"
proof -
  define q where "q = a div n"
  define r where "r = a mod n"
  have a: "a = n * q + r" and r: "0 \<le> r" "r < n"
    using assms by (simp_all add: q_def r_def)
  show ?thesis
  proof (cases "r = n - 1")
    case True
    then have e: "a + 1 = n * (q + 1) + 0"
      using a by (simp add: algebra_simps)
    have "(a + 1) div n = q + 1"
      by (rule int_div_pos_eq [OF e]) (use assms in simp_all)
    moreover have "(a + 1) mod n = 0"
      by (rule int_mod_pos_eq [OF e]) (use assms in simp_all)
    ultimately show ?thesis by (simp add: q_def)
  next
    case False
    then have e: "a + 1 = n * q + (r + 1)"
      using a by simp
    have r1: "0 \<le> r + 1" "r + 1 < n"
      using r False by simp_all
    have "(a + 1) div n = q"
      by (rule int_div_pos_eq [OF e r1])
    moreover have "(a + 1) mod n = r + 1"
      by (rule int_mod_pos_eq [OF e r1])
    ultimately show ?thesis using r by (simp add: q_def)
  qed
qed

lemma mod_shift: "(y - n * k) mod n = y mod n" for y n k :: int
  by (metis diff_conv_add_uminus mod_mult_self2 mult_minus_right)

lemma DayFromYear_Suc: "DayFromYear (y + 1) = DayFromYear y + DaysInYear y"
proof -
  have a: "(y + 1 - 1969) div 4 = (y - 1969) div 4 + (if y mod 4 = 0 then 1 else 0)"
    using div_succ [of 4 "y - 1969"] mod_shift [of y 4 492] by (simp add: algebra_simps)
  have b: "(y + 1 - 1901) div 100 = (y - 1901) div 100 + (if y mod 100 = 0 then 1 else 0)"
    using div_succ [of 100 "y - 1901"] mod_shift [of y 100 19] by (simp add: algebra_simps)
  have c: "(y + 1 - 1601) div 400 = (y - 1601) div 400 + (if y mod 400 = 0 then 1 else 0)"
    using div_succ [of 400 "y - 1601"] mod_shift [of y 400 4] by (simp add: algebra_simps)
  have d: "y mod 400 = 0 \<Longrightarrow> y mod 100 = 0"
    using mod_mod_cancel [of 100 400 y] by simp
  have e: "y mod 100 = 0 \<Longrightarrow> y mod 4 = 0"
    using mod_mod_cancel [of 4 100 y] by simp
  show ?thesis
    unfolding DayFromYear_def DaysInYear_def a b c using d e by auto
qed

lemma div_bounds:
  fixes a n :: int
  assumes "0 < n"
  shows "n * (a div n) \<le> a" and "a < n * (a div n) + n"
proof -
  have "a = n * (a div n) + a mod n" by simp
  moreover have "0 \<le> a mod n" "a mod n < n" using assms by simp_all
  ultimately show "n * (a div n) \<le> a" and "a < n * (a div n) + n" by linarith+
qed

lemma DayFromYear_estimate:
  "146097 * y - 287811596 \<le> 400 * DayFromYear y"
  "400 * DayFromYear y \<le> 146097 * y - 287810501"
proof -
  define a where "a = (y - 1969) div 4"
  define b where "b = (y - 1901) div 100"
  define c where "c = (y - 1601) div 400"
  have a: "4 * a \<le> y - 1969" "y - 1969 < 4 * a + 4"
    unfolding a_def by (rule div_bounds; simp)+
  have b: "100 * b \<le> y - 1901" "y - 1901 < 100 * b + 100"
    unfolding b_def by (rule div_bounds; simp)+
  have c: "400 * c \<le> y - 1601" "y - 1601 < 400 * c + 400"
    unfolding c_def by (rule div_bounds; simp)+
  have d: "DayFromYear y = 365 * y - 719050 + a - b + c"
    by (simp add: DayFromYear_def a_def b_def c_def)
  show "146097 * y - 287811596 \<le> 400 * DayFromYear y"
    using a b c by (simp add: d)
  show "400 * DayFromYear y \<le> 146097 * y - 287810501"
    using a b c by (simp add: d)
qed

text \<open>\<open>YearFromTime\<close> is the year the standard defines: the day of \<open>t\<close> lies in it.\<close>

lemma YearFromTime_bounds:
  "DayFromYear (YearFromTime t) \<le> Day t" "Day t < DayFromYear (YearFromTime t + 1)"
proof -
  define d where "d = Day t"
  define q where "q = (400 * d) div 146097"
  define y0 where "y0 = 1970 + q"
  have q: "146097 * q \<le> 400 * d" "400 * d < 146097 * q + 146097"
    unfolding q_def by (rule div_bounds; simp)+
  define y1 where "y1 = y0 - 1"
  define y2 where "y2 = y0 + 1 + 1"
  have lo: "DayFromYear y1 \<le> d"
    using DayFromYear_estimate(2) [of y1] q by (simp add: y1_def y0_def)
  have hi: "d < DayFromYear y2"
    using DayFromYear_estimate(1) [of y2] q by (simp add: y2_def y0_def)
  have y: "YearFromTime t =
      (if DayFromYear (y0 + 1) \<le> d then y0 + 1
       else if DayFromYear y0 \<le> d then y0
       else y0 - 1)"
    by (simp add: YearFromTime_def Let_def d_def q_def y0_def)
  show "DayFromYear (YearFromTime t) \<le> Day t"
    unfolding y d_def [symmetric] using lo by (simp add: y1_def)
  show "Day t < DayFromYear (YearFromTime t + 1)"
    unfolding y d_def [symmetric] using hi by (auto simp add: not_le y2_def)
qed

lemma Day_range:
  assumes "valid_time t"
  shows "- 100000000 \<le> Day t" "Day t \<le> 100000000"
  using assms div_bounds [of msPerDay t] by (simp_all add: Day_def msPerDay_def valid_time_def)

lemma YearFromTime_range:
  assumes "valid_time t"
  shows "- 271821 \<le> YearFromTime t" "YearFromTime t \<le> 275760"
proof -
  note d = Day_range [OF assms]
  define y where "y = YearFromTime t"
  define y' where "y' = y + 1"
  have "Day t < DayFromYear y'" "400 * DayFromYear y' \<le> 146097 * y' - 287810501"
    using YearFromTime_bounds(2) [of t] DayFromYear_estimate(2) [of y']
    by (simp_all add: y_def y'_def)
  then have "- 271821 < y'" using d by linarith
  then show "- 271821 \<le> YearFromTime t" by (simp add: y'_def y_def)
  have "DayFromYear y \<le> Day t" "146097 * y - 287811596 \<le> 400 * DayFromYear y"
    using YearFromTime_bounds(1) [of t] DayFromYear_estimate(1) [of y] by (simp_all add: y_def)
  then show "YearFromTime t \<le> 275760" unfolding y_def [symmetric] using d by linarith
qed

lemma DayWithinYear_range:
  "0 \<le> DayWithinYear t" "DayWithinYear t < 365 + InLeapYear t"
proof -
  show "0 \<le> DayWithinYear t"
    using YearFromTime_bounds(1) [of t] by (simp add: DayWithinYear_def)
  have "DaysInYear (YearFromTime t) = 365 + InLeapYear t"
    by (simp add: InLeapYear_def DaysInYear_def)
  then show "DayWithinYear t < 365 + InLeapYear t"
    using YearFromTime_bounds(2) [of t] DayFromYear_Suc [of "YearFromTime t"]
    by (simp add: DayWithinYear_def)
qed

lemma InLeapYear_cases: "InLeapYear t = 0 \<or> InLeapYear t = 1"
  by (simp add: InLeapYear_def)

lemma MonthFromTime_range: "0 \<le> MonthFromTime t" "MonthFromTime t \<le> 11"
  by (simp_all add: MonthFromTime_def Let_def)

lemma leap_flag: "(if DaysInYear (YearFromTime t) = 366 then 1 else 0) = InLeapYear t"
  by (simp add: InLeapYear_def)

lemma DaysBeforeMonth_DateFromTime:
  "DaysBeforeMonth (YearFromTime t) (MonthFromTime t) + DateFromTime t - 1 = DayWithinYear t"
  unfolding DaysBeforeMonth_def DateFromTime_def leap_flag
  by (simp add: MonthFromTime_def Let_def)

lemma DateFromTime_range:
  "1 \<le> DateFromTime t" "DateFromTime t \<le> DaysInMonth (YearFromTime t) (MonthFromTime t)"
proof -
  define d where "d = DayWithinYear t"
  define l where "l = InLeapYear t"
  have d: "0 \<le> d" "d < 365 + l"
    using DayWithinYear_range [of t] by (simp_all add: d_def l_def)
  have l: "l = 0 \<or> l = 1"
    using InLeapYear_cases [of t] by (simp add: l_def)
  have m: "MonthFromTime t =
      (if d < 31 then 0 else if d < 59 + l then 1 else if d < 90 + l then 2
       else if d < 120 + l then 3 else if d < 151 + l then 4 else if d < 181 + l then 5
       else if d < 212 + l then 6 else if d < 243 + l then 7 else if d < 273 + l then 8
       else if d < 304 + l then 9 else if d < 334 + l then 10 else 11)"
    by (simp add: MonthFromTime_def Let_def d_def l_def)
  have len: "DaysInMonth (YearFromTime t) m =
      (if m = 1 then 28 + l else if m = 3 \<or> m = 5 \<or> m = 8 \<or> m = 10 then 30 else 31)" for m
    by (simp add: DaysInMonth_def l_def InLeapYear_def)
  show "1 \<le> DateFromTime t"
    unfolding DateFromTime_def Let_def d_def [symmetric] l_def [symmetric] m
    using d l by auto
  show "DateFromTime t \<le> DaysInMonth (YearFromTime t) (MonthFromTime t)"
    unfolding len unfolding DateFromTime_def Let_def d_def [symmetric] l_def [symmetric] m
    using d l by auto
qed

lemma MakeDay_fields:
  "MakeDay (YearFromTime t) (MonthFromTime t) (DateFromTime t) = Day t"
proof -
  have "MonthFromTime t div 12 = 0" "MonthFromTime t mod 12 = MonthFromTime t"
    using MonthFromTime_range [of t] by simp_all
  then have "MakeDay (YearFromTime t) (MonthFromTime t) (DateFromTime t) =
      DayFromYear (YearFromTime t) +
      (DaysBeforeMonth (YearFromTime t) (MonthFromTime t) + DateFromTime t - 1)"
    by (simp add: MakeDay_def Let_def)
  then show ?thesis
    by (simp only: DaysBeforeMonth_DateFromTime) (simp add: DayWithinYear_def)
qed

lemma time_fields_range:
  "0 \<le> HourFromTime t" "HourFromTime t < 24"
  "0 \<le> MinFromTime t" "MinFromTime t < 60"
  "0 \<le> SecFromTime t" "SecFromTime t < 60"
  "0 \<le> msFromTime t" "msFromTime t < 1000"
  by (simp_all add: HourFromTime_def MinFromTime_def SecFromTime_def msFromTime_def
      msPerSecond_def)

lemma MakeTime_fields:
  "MakeTime (HourFromTime t) (MinFromTime t) (SecFromTime t) (msFromTime t) = TimeWithinDay t"
proof -
  have a: "t mod (1000 * 60) = 1000 * (t div 1000 mod 60) + t mod 1000"
    by (rule zmod_zmult2_eq) simp
  have b: "t mod (60000 * 60) = 60000 * (t div 60000 mod 60) + t mod 60000"
    by (rule zmod_zmult2_eq) simp
  have c: "t mod (3600000 * 24) = 3600000 * (t div 3600000 mod 24) + t mod 3600000"
    by (rule zmod_zmult2_eq) simp
  show ?thesis
    using a b c
    by (simp add: MakeTime_def HourFromTime_def MinFromTime_def SecFromTime_def msFromTime_def
        TimeWithinDay_def msPerDay_def msPerHour_def msPerMinute_def msPerSecond_def)
qed

lemma MakeDate_fields:
  "MakeDate (MakeDay (YearFromTime t) (MonthFromTime t) (DateFromTime t))
            (MakeTime (HourFromTime t) (MinFromTime t) (SecFromTime t) (msFromTime t)) = t"
  by (simp only: MakeDay_fields MakeTime_fields) (simp add: MakeDate_def Day_def TimeWithinDay_def)

subsection \<open>Parsing inverts formatting\<close>

lemma expect_Cons: "expect c (c # r) = Some r"
  by (simp add: expect_def)

lemma parse_date_time_string:
  assumes "valid_time t"
  shows "parse_date_time (date_time_string t) = Some t"
proof -
  define Y where "Y = YearFromTime t"
  define M where "M = nat (MonthFromTime t + 1)"
  define D where "D = nat (DateFromTime t)"
  define H where "H = nat (HourFromTime t)"
  define Mi where "Mi = nat (MinFromTime t)"
  define S where "S = nat (SecFromTime t)"
  define Ms where "Ms = nat (msFromTime t)"
  have iM: "int M = MonthFromTime t + 1"
    using MonthFromTime_range [of t] by (simp add: M_def)
  have iD: "int D = DateFromTime t"
    using DateFromTime_range(1) [of t] by (simp add: D_def)
  have iH: "int H = HourFromTime t" and iMi: "int Mi = MinFromTime t"
    and iS: "int S = SecFromTime t" and iMs: "int Ms = msFromTime t"
    using time_fields_range [of t] by (simp_all add: H_def Mi_def S_def Ms_def)
  have "DaysInMonth Y (MonthFromTime t) \<le> 31"
    by (simp add: DaysInMonth_def)
  then have D31: "DateFromTime t \<le> 31"
    using DateFromTime_range(2) [of t] by (simp add: Y_def)
  have y: "parse_year (year_string Y @ r) = Some (Y, r)" for r
    using YearFromTime_range [OF assms] by (intro parse_year_string) (simp_all add: Y_def)
  have m: "read_digits 2 (digits 2 M @ r) = Some (M, r)" for r
    unfolding M_def using MonthFromTime_range [of t] by (intro read_digits_nat) simp_all
  have d: "read_digits 2 (digits 2 D @ r) = Some (D, r)" for r
    unfolding D_def using DateFromTime_range(1) [of t] D31 by (intro read_digits_nat) simp_all
  have h: "read_digits 2 (digits 2 H @ r) = Some (H, r)" for r
    unfolding H_def using time_fields_range [of t] by (intro read_digits_nat) simp_all
  have mi: "read_digits 2 (digits 2 Mi @ r) = Some (Mi, r)" for r
    unfolding Mi_def using time_fields_range [of t] by (intro read_digits_nat) simp_all
  have sec: "read_digits 2 (digits 2 S @ r) = Some (S, r)" for r
    unfolding S_def using time_fields_range [of t] by (intro read_digits_nat) simp_all
  have ms: "read_digits 3 (digits 3 Ms @ r) = Some (Ms, r)" for r
    unfolding Ms_def using time_fields_range [of t] by (intro read_digits_nat) simp_all
  have str: "date_time_string t =
      year_string Y @ CHR ''-'' # digits 2 M @ CHR ''-'' # digits 2 D @ CHR ''T'' #
      digits 2 H @ CHR '':'' # digits 2 Mi @ CHR '':'' # digits 2 S @ CHR ''.'' #
      digits 3 Ms @ ''Z''"
    by (simp add: date_time_string_def Y_def M_def D_def H_def Mi_def S_def Ms_def)
  have bounds: "fields_in_bounds Y (int M) (int D) (int H) (int Mi) (int S) (int Ms)"
    unfolding iM iD iH iMi iS iMs fields_in_bounds_def
    using MonthFromTime_range [of t] DateFromTime_range [of t] time_fields_range [of t]
    by (simp add: Y_def)
  have "parse_date_time (date_time_string t) =
      Some (MakeDate (MakeDay Y (int M - 1) (int D)) (MakeTime (int H) (int Mi) (int S) (int Ms)))"
    unfolding str parse_date_time_def
    by (simp only: y m d h mi sec ms expect_Cons bounds Option.bind.simps prod.case
        simp_thms if_True)
  also have "\<dots> = Some t"
    unfolding iM iD iH iMi iS iMs Y_def using MakeDate_fields [of t] by simp
  finally show ?thesis .
qed

lemma new_Date_toISOString:
  assumes "valid_time t"
  shows "new_Date fallback (date_time_string t) = TimeValue t"
  using assms by (simp add: new_Date_def parse_date_time_string TimeClip_def valid_time_def)

section \<open>The error translator\<close>

lemma strict_eq_num_iff: "strict_eq_num v c \<longleftrightarrow> v = JNumber (Finite c)"
  by (cases "(v, c)" rule: strict_eq_num.cases) auto

lemma range_4xx: "num_ge n 400 \<and> num_lt n 500 \<longleftrightarrow> in_4xx n"
  by (cases n) auto

lemma or_else_cases:
  "or_else m fallback =
     (case m of None \<Rightarrow> fallback | Some text \<Rightarrow> if text = [] then fallback else text)"
  by (cases m) auto

lemma mapCosmosError_branches:
  "mapCosmosError rt err =
     (if error_code err = JNumber (Finite 409) then
        \<lparr>code = ALREADY_EXISTS, message = ''A product with this ID already exists''\<rparr>
      else if error_code err = JNumber (Finite 404) then
        \<lparr>code = NOT_FOUND, message = ''Product not found''\<rparr>
      else if in_4xx (ToNumber (StringToNumber rt) (error_code err)) then
        \<lparr>code = VALIDATION_ERROR,
         message = or_else (error_message err) ''Invalid request''\<rparr>
      else
        \<lparr>code = PERSISTENCE_ERROR,
         message = or_else (error_message err)
                     ''An error occurred while accessing the database''\<rparr>)"
  by (simp add: mapCosmosError_def strict_eq_num_iff range_4xx)

text \<open>A failure without a code, and a failure with a code from 500 on, are persistence
  errors.\<close>

lemma mapCosmosError_no_code:
  "error_code err = JUndefined \<Longrightarrow> code (mapCosmosError rt err) = PERSISTENCE_ERROR"
  by (simp add: mapCosmosError_branches)

lemma mapCosmosError_5xx:
  "error_code err = JNumber (Finite x) \<Longrightarrow> 500 \<le> x \<Longrightarrow>
   code (mapCosmosError rt err) = PERSISTENCE_ERROR"
  by (simp add: mapCosmosError_branches)

text \<open>
  Claim C1, as amended. For every failure object, \<open>mapCosmosError\<close> follows a policy of
  four branches, the first that applies: a code that is the number 409 gives
  \<open>ALREADY_EXISTS\<close> with its fixed message; else a code that is the number 404 gives
  \<open>NOT_FOUND\<close> with its fixed message; else a code whose numeric value is from 400 up to,
  not including, 500 gives \<open>VALIDATION_ERROR\<close>; every other failure gives
  \<open>PERSISTENCE_ERROR\<close>. In the last two branches the message of the failure is passed
  through when it is a non-empty string, and the fallback message is used when it is
  absent or empty.
\<close>

theorem mapCosmosError_policy:
  "mapCosmosError rt err =
     (if error_code err = JNumber (Finite 409) then
        \<lparr>code = ALREADY_EXISTS, message = ''A product with this ID already exists''\<rparr>
      else if error_code err = JNumber (Finite 404) then
        \<lparr>code = NOT_FOUND, message = ''Product not found''\<rparr>
      else if in_4xx (ToNumber (StringToNumber rt) (error_code err)) then
        \<lparr>code = VALIDATION_ERROR,
         message = (case error_message err of
                      None \<Rightarrow> ''Invalid request''
                    | Some text \<Rightarrow> if text = [] then ''Invalid request'' else text)\<rparr>
      else
        \<lparr>code = PERSISTENCE_ERROR,
         message = (case error_message err of
                      None \<Rightarrow> ''An error occurred while accessing the database''
                    | Some text \<Rightarrow>
                        if text = [] then ''An error occurred while accessing the database''
                        else text)\<rparr>)"
  unfolding mapCosmosError_branches or_else_cases by (rule refl)

theorem mapCosmosError_policy_witness:
  "mapCosmosError example_runtime conflict_error =
     \<lparr>code = ALREADY_EXISTS, message = ''A product with this ID already exists''\<rparr> \<and>
   mapCosmosError example_runtime \<lparr>error_code = JNumber (Finite 404), error_message = None\<rparr> =
     \<lparr>code = NOT_FOUND, message = ''Product not found''\<rparr> \<and>
   mapCosmosError example_runtime
       \<lparr>error_code = JNumber (Finite 429), error_message = Some ''Too many requests''\<rparr> =
     \<lparr>code = VALIDATION_ERROR, message = ''Too many requests''\<rparr> \<and>
   mapCosmosError example_runtime network_error =
     \<lparr>code = PERSISTENCE_ERROR, message = ''connect ECONNREFUSED''\<rparr> \<and>
   mapCosmosError example_runtime \<lparr>error_code = JNumber (Finite 503), error_message = None\<rparr> =
     \<lparr>code = PERSISTENCE_ERROR, message = ''An error occurred while accessing the database''\<rparr>"
  unfolding mapCosmosError_policy
  by (simp add: conflict_error_def network_error_def example_runtime_def digit_val_def)

text \<open>
  Claim C1 as stated fails: with code 400 and the empty string as message, the message is
  present and yet is not passed through; the result carries the fallback message.
\<close>

theorem mapCosmosError_not_stated_policy:
  "mapCosmosError example_runtime \<lparr>error_code = JNumber (Finite 400), error_message = Some []\<rparr> =
     \<lparr>code = VALIDATION_ERROR, message = ''Invalid request''\<rparr> \<and>
   stated_policy example_runtime \<lparr>error_code = JNumber (Finite 400), error_message = Some []\<rparr> =
     \<lparr>code = VALIDATION_ERROR, message = []\<rparr> \<and>
   mapCosmosError example_runtime \<lparr>error_code = JNumber (Finite 400), error_message = Some []\<rparr> \<noteq>
   stated_policy example_runtime \<lparr>error_code = JNumber (Finite 400), error_message = Some []\<rparr>"
  by (simp add: mapCosmosError_branches stated_policy_def message_or_absent_def)

text \<open>
  Claim C9. The fallback message is used for the empty string as for an absent message:
  a failure with the empty message and a code in the range 400 to 499 other than 404 and
  409 gives \<open>VALIDATION_ERROR\<close> with "Invalid request", and one with the empty message and
  a code outside that range gives \<open>PERSISTENCE_ERROR\<close> with the generic message.
\<close>

theorem mapCosmosError_empty_message:
  assumes "error_message err = Some []"
  shows "(in_4xx (ToNumber (StringToNumber rt) (error_code err)) \<and>
          error_code err \<noteq> JNumber (Finite 404) \<and> error_code err \<noteq> JNumber (Finite 409) \<longrightarrow>
            mapCosmosError rt err = \<lparr>code = VALIDATION_ERROR, message = ''Invalid request''\<rparr>) \<and>
         (\<not> in_4xx (ToNumber (StringToNumber rt) (error_code err)) \<longrightarrow>
            mapCosmosError rt err =
              \<lparr>code = PERSISTENCE_ERROR,
               message = ''An error occurred while accessing the database''\<rparr>)"
  using assms by (auto simp add: mapCosmosError_branches)

theorem mapCosmosError_empty_message_witness:
  "mapCosmosError example_runtime \<lparr>error_code = JNumber (Finite 400), error_message = Some []\<rparr> =
     \<lparr>code = VALIDATION_ERROR, message = ''Invalid request''\<rparr> \<and>
   mapCosmosError example_runtime \<lparr>error_code = JNumber (Finite 500), error_message = Some []\<rparr> =
     \<lparr>code = PERSISTENCE_ERROR, message = ''An error occurred while accessing the database''\<rparr> \<and>
   mapCosmosError example_runtime \<lparr>error_code = JUndefined, error_message = Some []\<rparr> =
     \<lparr>code = PERSISTENCE_ERROR, message = ''An error occurred while accessing the database''\<rparr>"
  using
    mapCosmosError_empty_message
      [of "\<lparr>error_code = JNumber (Finite 400), error_message = Some []\<rparr>" example_runtime]
    mapCosmosError_empty_message
      [of "\<lparr>error_code = JNumber (Finite 500), error_message = Some []\<rparr>" example_runtime]
    mapCosmosError_empty_message
      [of "\<lparr>error_code = JUndefined, error_message = Some []\<rparr>" example_runtime]
  by simp

section \<open>The document mapper\<close>

lemma toDocument_cases:
  "toDocument P =
     (case product_createdAt P of
        InvalidDate \<Rightarrow> Inl (ThrowObject (RangeError ''Invalid time value''))
      | TimeValue t \<Rightarrow>
          Inr \<lparr>doc_id = product_id P,
               doc_name = product_name P,
               doc_price = product_price P,
               doc_category = product_category P,
               doc_description = product_description P,
               doc_inStock = product_inStock P,
               doc_createdAt = date_time_string t,
               doc_rid = None, doc_self = None, doc_etag = None,
               doc_attachments = None, doc_ts = None\<rparr>)"
  by (simp add: toDocument_def toISOString_def split: Date.split)

text \<open>
  Claim C4. For every product whose \<open>createdAt\<close> is a valid date, \<open>toDocument\<close> returns a
  document, and \<open>toDomain\<close> of that document is the product: \<open>id\<close>, \<open>name\<close>, \<open>price\<close>,
  \<open>category\<close>, \<open>description\<close> (also when absent) and \<open>inStock\<close> are equal, and
  \<open>createdAt\<close> is the same instant, although it went through its ISO-8601 string.
\<close>

theorem toDomain_toDocument:
  assumes "product_createdAt P = TimeValue t" "valid_time t"
  shows "\<exists>document. toDocument P = Inr document \<and> toDomain rt document = P"
proof -
  have "toDomain rt
          \<lparr>doc_id = product_id P, doc_name = product_name P, doc_price = product_price P,
           doc_category = product_category P, doc_description = product_description P,
           doc_inStock = product_inStock P, doc_createdAt = date_time_string t,
           doc_rid = None, doc_self = None, doc_etag = None,
           doc_attachments = None, doc_ts = None\<rparr> = P"
    using assms by (cases P) (simp add: toDomain_def new_Date_toISOString)
  then show ?thesis
    using assms(1) by (simp add: toDocument_cases)
qed

theorem toDomain_toDocument_witness:
  "product_createdAt example_product = TimeValue 1700000000123 \<and>
   valid_time 1700000000123 \<and>
   (\<exists>document. toDocument example_product = Inr document \<and>
      toDomain example_runtime document = example_product)"
  using toDomain_toDocument [of example_product 1700000000123 example_runtime]
  by (simp add: example_product_def valid_time_def)

text \<open>
  Claim C7. \<open>toDomain\<close> gives equal products for two documents that agree on the domain
  fields, whatever their system properties are; and a document that \<open>toDocument\<close> returns
  has none of the five system properties.
\<close>

theorem mapper_metadata:
  "(same_domain_fields d d' \<longrightarrow> toDomain rt d = toDomain rt d') \<and>
   (toDocument P = Inr document \<longrightarrow> no_metadata document)"
  by (auto simp add: same_domain_fields_def toDomain_def toDocument_cases no_metadata_def
      split: Date.splits)

theorem mapper_metadata_witness:
  "same_domain_fields stored_document
     (stored_document\<lparr>doc_rid := None, doc_self := None, doc_etag := Some ''etag-2'',
        doc_attachments := None, doc_ts := Some (Finite 1700000999)\<rparr>) \<and>
   toDomain example_runtime stored_document =
     toDomain example_runtime
       (stored_document\<lparr>doc_rid := None, doc_self := None, doc_etag := Some ''etag-2'',
          doc_attachments := None, doc_ts := Some (Finite 1700000999)\<rparr>) \<and>
   toDocument example_product =
     Inr \<lparr>doc_id = ''PROD-100'', doc_name = ''Laptop'', doc_price = Finite 1299,
          doc_category = ''Electronics'', doc_description = None, doc_inStock = True,
          doc_createdAt = date_time_string 1700000000123,
          doc_rid = None, doc_self = None, doc_etag = None,
          doc_attachments = None, doc_ts = None\<rparr> \<and>
   no_metadata
     \<lparr>doc_id = ''PROD-100'', doc_name = ''Laptop'', doc_price = Finite 1299,
      doc_category = ''Electronics'', doc_description = None, doc_inStock = True,
      doc_createdAt = date_time_string 1700000000123,
      doc_rid = None, doc_self = None, doc_etag = None,
      doc_attachments = None, doc_ts = None\<rparr>"
proof -
  have a: "same_domain_fields stored_document
     (stored_document\<lparr>doc_rid := None, doc_self := None, doc_etag := Some ''etag-2'',
        doc_attachments := None, doc_ts := Some (Finite 1700000999)\<rparr>)"
    by (simp add: same_domain_fields_def)
  have b: "toDocument example_product =
     Inr \<lparr>doc_id = ''PROD-100'', doc_name = ''Laptop'', doc_price = Finite 1299,
          doc_category = ''Electronics'', doc_description = None, doc_inStock = True,
          doc_createdAt = date_time_string 1700000000123,
          doc_rid = None, doc_self = None, doc_etag = None,
          doc_attachments = None, doc_ts = None\<rparr>"
    by (simp add: toDocument_cases example_product_def)
  from a b mapper_metadata [of stored_document _ example_runtime example_product]
  show ?thesis by blast
qed

section \<open>The operations of the adapter\<close>

lemma mapCosmosError_any_cases:
  "mapCosmosError_any rt ThrowUndefined = Inl (ThrowObject (cannot_read_code ''undefined''))"
  "mapCosmosError_any rt ThrowNull = Inl (ThrowObject (cannot_read_code ''null''))"
  "mapCosmosError_any rt ThrowPrimitive =
     Inr (mapCosmosError rt \<lparr>error_code = JUndefined, error_message = None\<rparr>)"
  "mapCosmosError_any rt (ThrowObject err) = Inr (mapCosmosError rt err)"
  by (simp_all add: mapCosmosError_any_def)



text \<open>
  Claim C2. When the document was built and the store answers with a resource, \<open>create\<close>
  returns a success whose data is \<open>toDomain\<close> of the resource that the store returned;
  when the store answers without a resource, it returns the failure \<open>PERSISTENCE_ERROR\<close>
  with "Failed to create product - no resource returned"; when the store call throws a
  failure, it returns the failure \<open>mapCosmosError\<close> of what was thrown. (When
  \<open>toDocument\<close> throws, the store is not called, and what was thrown is translated
  likewise. When what was thrown is \<open>undefined\<close> or \<open>null\<close>, \<open>mapCosmosError\<close> itself
  throws.)
\<close>

theorem create_outcomes:
  "create rt container product =
     (case toDocument product of
        Inl thrown \<Rightarrow>
          (case thrown of
             ThrowUndefined \<Rightarrow> Inl (ThrowObject (cannot_read_code ''undefined''))
           | ThrowNull \<Rightarrow> Inl (ThrowObject (cannot_read_code ''null''))
           | ThrowPrimitive \<Rightarrow>
               Inr \<lparr>success = False, data = None,
                    error = Some (mapCosmosError rt
                              \<lparr>error_code = JUndefined, error_message = None\<rparr>)\<rparr>
           | ThrowObject err \<Rightarrow>
               Inr \<lparr>success = False, data = None, error = Some (mapCosmosError rt err)\<rparr>)
      | Inr document \<Rightarrow>
          (case items_create container document \<lparr>disableAutomaticIdGeneration = True\<rparr> of
             Inl thrown \<Rightarrow>
               (case thrown of
                  ThrowUndefined \<Rightarrow> Inl (ThrowObject (cannot_read_code ''undefined''))
                | ThrowNull \<Rightarrow> Inl (ThrowObject (cannot_read_code ''null''))
                | ThrowPrimitive \<Rightarrow>
                    Inr \<lparr>success = False, data = None,
                         error = Some (mapCosmosError rt
                                   \<lparr>error_code = JUndefined, error_message = None\<rparr>)\<rparr>
                | ThrowObject err \<Rightarrow>
                    Inr \<lparr>success = False, data = None,
                         error = Some (mapCosmosError rt err)\<rparr>)
           | Inr response \<Rightarrow>
               Inr (case resource response of
                      Some r \<Rightarrow>
                        \<lparr>success = True, data = Some (toDomain rt r), error = None\<rparr>
                    | None \<Rightarrow>
                        \<lparr>success = False, data = None,
                         error = Some \<lparr>code = PERSISTENCE_ERROR,
                           message = ''Failed to create product - no resource returned''\<rparr>\<rparr>)))"
  by (simp add: create_def try_catch_def mapCosmosError_any_def
      split: sum.split option.split js_thrown.split)

theorem create_outcomes_witness:
  "create example_runtime example_container example_product =
     Inr \<lparr>success = True, data = Some (toDomain example_runtime stored_document),
          error = None\<rparr> \<and>
   toDomain example_runtime stored_document \<noteq> example_product \<and>
   create example_runtime example_container (example_product\<lparr>product_id := ''PROD-000''\<rparr>) =
     Inr \<lparr>success = False, data = None,
          error = Some \<lparr>code = PERSISTENCE_ERROR,
            message = ''Failed to create product - no resource returned''\<rparr>\<rparr> \<and>
   create example_runtime example_container (example_product\<lparr>product_id := ''PROD-409''\<rparr>) =
     Inr \<lparr>success = False, data = None,
          error = Some \<lparr>code = ALREADY_EXISTS,
            message = ''A product with this ID already exists''\<rparr>\<rparr> \<and>
   create example_runtime example_container
       (example_product\<lparr>product_createdAt := InvalidDate\<rparr>) =
     Inr \<lparr>success = False, data = None,
          error = Some \<lparr>code = PERSISTENCE_ERROR, message = ''Invalid time value''\<rparr>\<rparr>"
  unfolding create_outcomes
  by (simp add: toDocument_cases example_product_def example_container_def conflict_error_def
      mapCosmosError_branches toDomain_def stored_document_def RangeError_def)

text \<open>
  Claim C3. \<open>get\<close> reads the item with the requested id as item id and as partition key.
  When the store answers with a resource, it returns a success whose data is \<open>toDomain\<close>
  of the resource; when the store answers without a resource, it returns the failure
  \<open>NOT_FOUND\<close> with the message "Product with ID '<id>' not found" for the requested id;
  when the store call throws a failure, it returns the failure \<open>mapCosmosError\<close> of what
  was thrown. (When what was thrown is \<open>undefined\<close> or \<open>null\<close>, \<open>mapCosmosError\<close> itself
  throws.)
\<close>

theorem get_outcomes:
  "get rt container ident =
     (case item_read container ident ident of
        Inl thrown \<Rightarrow>
          (case thrown of
             ThrowUndefined \<Rightarrow> Inl (ThrowObject (cannot_read_code ''undefined''))
           | ThrowNull \<Rightarrow> Inl (ThrowObject (cannot_read_code ''null''))
           | ThrowPrimitive \<Rightarrow>
               Inr \<lparr>success = False, data = None,
                    error = Some (mapCosmosError rt
                              \<lparr>error_code = JUndefined, error_message = None\<rparr>)\<rparr>
           | ThrowObject err \<Rightarrow>
               Inr \<lparr>success = False, data = None, error = Some (mapCosmosError rt err)\<rparr>)
      | Inr response \<Rightarrow>
          Inr (case resource response of
                 Some r \<Rightarrow>
                   \<lparr>success = True, data = Some (toDomain rt r), error = None\<rparr>
               | None \<Rightarrow>
                   \<lparr>success = False, data = None,
                    error = Some \<lparr>code = NOT_FOUND,
                      message = ''Product with ID '' @ [CHR 0x27] @ ident @ [CHR 0x27] @
                                '' not found''\<rparr>\<rparr>))"
  by (simp add: get_def try_catch_def mapCosmosError_any_def
      split: sum.split option.split js_thrown.split)

theorem get_outcomes_witness:
  "get example_runtime example_container ''PROD-100'' =
     Inr \<lparr>success = True, data = Some (toDomain example_runtime stored_document),
          error = None\<rparr> \<and>
   get example_runtime example_container ''PROD-7'' =
     Inr \<lparr>success = False, data = None,
          error = Some \<lparr>code = NOT_FOUND,
            message = ''Product with ID '' @ [CHR 0x27] @ ''PROD-7'' @ [CHR 0x27] @
                      '' not found''\<rparr>\<rparr> \<and>
   get example_runtime example_container ''PROD-503'' =
     Inr \<lparr>success = False, data = None,
          error = Some \<lparr>code = PERSISTENCE_ERROR, message = ''connect ECONNREFUSED''\<rparr>\<rparr>"
  unfolding get_outcomes
  by (simp add: example_container_def network_error_def mapCosmosError_branches
      example_runtime_def digit_val_def)




text \<open>
  Claim C8. Every result that \<open>create\<close> or \<open>get\<close> returns has exactly one variant: success
  with data and without error, or no success with an error and without data.
\<close>

theorem create_get_exactly_one_variant:
  "(create rt container product = Inr r \<longrightarrow> exactly_one_variant r) \<and>
   (get rt container ident = Inr r' \<longrightarrow> exactly_one_variant r')"
  by (auto simp add: create_def get_def try_catch_def exactly_one_variant_def
      split: sum.splits option.splits)

theorem create_get_exactly_one_variant_witness:
  "create example_runtime example_container (example_product\<lparr>product_id := ''PROD-409''\<rparr>) =
     Inr \<lparr>success = False, data = None,
          error = Some \<lparr>code = ALREADY_EXISTS,
            message = ''A product with this ID already exists''\<rparr>\<rparr> \<and>
   exactly_one_variant
     \<lparr>success = False, data = (None :: Product option),
      error = Some \<lparr>code = ALREADY_EXISTS,
        message = ''A product with this ID already exists''\<rparr>\<rparr> \<and>
   get example_runtime example_container ''PROD-100'' =
     Inr \<lparr>success = True, data = Some (toDomain example_runtime stored_document),
          error = None\<rparr> \<and>
   exactly_one_variant
     \<lparr>success = True, data = Some (toDomain example_runtime stored_document), error = None\<rparr>"
proof -
  have a: "create example_runtime example_container (example_product\<lparr>product_id := ''PROD-409''\<rparr>) =
     Inr \<lparr>success = False, data = None,
          error = Some \<lparr>code = ALREADY_EXISTS,
            message = ''A product with this ID already exists''\<rparr>\<rparr>"
    by (simp add: create_def try_catch_def toDocument_cases example_product_def
        example_container_def conflict_error_def mapCosmosError_branches
        mapCosmosError_any_cases)
  have b: "get example_runtime example_container ''PROD-100'' =
     Inr \<lparr>success = True, data = Some (toDomain example_runtime stored_document),
          error = None\<rparr>"
    by (simp add: get_def try_catch_def example_container_def)
  from a b create_get_exactly_one_variant
    [of example_runtime example_container "example_product\<lparr>product_id := ''PROD-409''\<rparr>" _
        "''PROD-100''"]
  show ?thesis by blast
qed

section \<open>The list endpoint\<close>

lemma listProductsResponse_cases:
  "listProductsResponse rt =
     (if valid_time (clock rt 2) then
        Inr \<lparr>response_success = True,
             response_data = Some (mockProducts rt),
             response_error = None,
             response_metadata =
               Some \<lparr>count = 2, timestamp = date_time_string (clock rt 2)\<rparr>\<rparr>
      else Inl (ThrowObject (RangeError ''Invalid time value'')))"
  by (simp add: listProductsResponse_def Date_now_def TimeClip_def toISOString_def
      valid_time_def mockProducts_def)

lemma listProductsHttp_cases:
  "fst (listProductsHttp JSON_stringify rt productRepo request context) =
     (case listProductsResponse rt of
        Inr response \<Rightarrow>
          \<lparr>status = 200,
           headers = [(''Content-Type'', ''application/json''), (''Cache-Control'', ''no-cache'')],
           body = JSON_stringify response\<rparr>
      | Inl err \<Rightarrow>
          \<lparr>status = 500,
           headers = [(''Content-Type'', ''application/json'')],
           body = JSON_stringify errorResponse\<rparr>)"
  by (simp add: listProductsHttp_def Let_def split: sum.split)

lemma example_clock: "clock example_runtime k = 1700000000000 + int k"
  by (simp add: example_runtime_def)

lemma later_clock: "clock later_runtime k = 1700000060000 + int k"
  by (simp add: later_runtime_def)

lemma example_response:
  "listProductsResponse example_runtime =
     Inr \<lparr>response_success = True,
          response_data = Some (mockProducts example_runtime),
          response_error = None,
          response_metadata =
            Some \<lparr>count = 2, timestamp = date_time_string 1700000000002\<rparr>\<rparr>"
  by (simp add: listProductsResponse_cases example_clock valid_time_def)

text \<open>
  Claim C5, as amended. On the path of the handler that does not throw, the response has
  status 200 and the headers \<open>Content-Type: application/json\<close> and
  \<open>Cache-Control: no-cache\<close>, and its body is the serialised success envelope. The data of
  the envelope are the two sample products \<open>PROD-001\<close> and \<open>PROD-002\<close>, the same in every
  field but \<open>createdAt\<close>, which is the time at which the handler ran; the metadata are the
  count 2 and a timestamp. The result does not depend on the storage adapter or on the
  request.
\<close>

theorem listProductsHttp_success:
  assumes "listProductsResponse rt = Inr response"
  shows "fst (listProductsHttp JSON_stringify rt productRepo request context) =
           \<lparr>status = 200,
            headers = [(''Content-Type'', ''application/json''),
                       (''Cache-Control'', ''no-cache'')],
            body = JSON_stringify response\<rparr> \<and>
         response_success response \<and>
         response_data response =
           Some [\<lparr>product_id = ''PROD-001'',
                  product_name = ''Sample Product 1'',
                  product_price = Finite (9999 / 100),
                  product_category = ''Electronics'',
                  product_description = Some ''A sample product for demonstration'',
                  product_inStock = True,
                  product_createdAt = Date_now rt 0\<rparr>,
                 \<lparr>product_id = ''PROD-002'',
                  product_name = ''Sample Product 2'',
                  product_price = Finite (4999 / 100),
                  product_category = ''Accessories'',
                  product_description = None,
                  product_inStock = False,
                  product_createdAt = Date_now rt 1\<rparr>] \<and>
         response_error response = None \<and>
         (\<exists>now. response_metadata response = Some \<lparr>count = 2, timestamp = now\<rparr>) \<and>
         listProductsHttp JSON_stringify rt productRepo request context =
           listProductsHttp JSON_stringify rt productRepo' request' context"
proof -
  have "fst (listProductsHttp JSON_stringify rt productRepo request context) =
          \<lparr>status = 200,
           headers = [(''Content-Type'', ''application/json''), (''Cache-Control'', ''no-cache'')],
           body = JSON_stringify response\<rparr>"
    using assms by (simp add: listProductsHttp_cases)
  moreover have "response_success response \<and> response_data response = Some (mockProducts rt) \<and>
      response_error response = None \<and>
      (\<exists>now. response_metadata response = Some \<lparr>count = 2, timestamp = now\<rparr>)"
    using assms by (auto simp add: listProductsResponse_cases split: if_splits)
  moreover have "listProductsHttp JSON_stringify rt productRepo request context =
      listProductsHttp JSON_stringify rt productRepo' request' context"
    by (simp add: listProductsHttp_def)
  ultimately show ?thesis
    by (simp add: mockProducts_def)
qed

theorem listProductsHttp_success_witness:
  "listProductsResponse example_runtime =
     Inr \<lparr>response_success = True,
          response_data = Some (mockProducts example_runtime),
          response_error = None,
          response_metadata =
            Some \<lparr>count = 2, timestamp = date_time_string 1700000000002\<rparr>\<rparr> \<and>
   fst (listProductsHttp (\<lambda>response. ''{}'') example_runtime example_container () \<lparr>logged = []\<rparr>) =
     \<lparr>status = 200,
      headers = [(''Content-Type'', ''application/json''), (''Cache-Control'', ''no-cache'')],
      body = ''{}''\<rparr>"
proof -
  have "fst (listProductsHttp (\<lambda>response. ''{}'') example_runtime example_container ()
               \<lparr>logged = []\<rparr>) =
     \<lparr>status = 200,
      headers = [(''Content-Type'', ''application/json''), (''Cache-Control'', ''no-cache'')],
      body = ''{}''\<rparr>"
    using listProductsHttp_success [OF example_response,
        of "\<lambda>response. ''{}''" example_container "()" "\<lparr>logged = []\<rparr>" "()" "()"]
    by (rule conjunct1)
  with example_response show ?thesis
    by (rule conjI)
qed

text \<open>
  Claim C5 as stated fails: the data are not the same in every invocation. Two
  invocations that read the clock a minute apart both take the path that does not throw,
  and their data differ in \<open>createdAt\<close>.
\<close>

theorem listProducts_data_not_fixed:
  "listProductsResponse example_runtime =
     Inr \<lparr>response_success = True,
          response_data = Some (mockProducts example_runtime),
          response_error = None,
          response_metadata =
            Some \<lparr>count = 2, timestamp = date_time_string 1700000000002\<rparr>\<rparr> \<and>
   listProductsResponse later_runtime =
     Inr \<lparr>response_success = True,
          response_data = Some (mockProducts later_runtime),
          response_error = None,
          response_metadata =
            Some \<lparr>count = 2, timestamp = date_time_string 1700000060002\<rparr>\<rparr> \<and>
   map product_createdAt (mockProducts example_runtime) =
     [TimeValue 1700000000000, TimeValue 1700000000001] \<and>
   map product_createdAt (mockProducts later_runtime) =
     [TimeValue 1700000060000, TimeValue 1700000060001] \<and>
   mockProducts example_runtime \<noteq> mockProducts later_runtime"
  by (simp add: listProductsResponse_cases example_clock later_clock valid_time_def
      mockProducts_def Date_now_def TimeClip_def)

text \<open>
  Claim C10. In every success response of the handler, the body is the serialisation of
  an envelope whose \<open>metadata.count\<close> is the length of its \<open>data\<close>.
\<close>

theorem listProducts_count:
  assumes "listProductsResponse rt = Inr response"
  shows "body (fst (listProductsHttp JSON_stringify rt productRepo request context)) =
           JSON_stringify response \<and>
         (\<exists>products m. response_data response = Some products \<and>
            response_metadata response = Some m \<and> count m = length products)"
proof -
  have "body (fst (listProductsHttp JSON_stringify rt productRepo request context)) =
      JSON_stringify response"
    using assms by (simp add: listProductsHttp_cases)
  moreover have "\<exists>products m. response_data response = Some products \<and>
      response_metadata response = Some m \<and> count m = length products"
    using assms by (auto simp add: listProductsResponse_def split: sum.splits)
  ultimately show ?thesis by simp
qed

theorem listProducts_count_witness:
  "listProductsResponse example_runtime =
     Inr \<lparr>response_success = True,
          response_data = Some (mockProducts example_runtime),
          response_error = None,
          response_metadata =
            Some \<lparr>count = 2, timestamp = date_time_string 1700000000002\<rparr>\<rparr> \<and>
   length (mockProducts example_runtime) = 2 \<and>
   body (fst (listProductsHttp (\<lambda>response. ''{}'') example_runtime example_container ()
                \<lparr>logged = []\<rparr>)) = ''{}''"
  using example_response
    listProducts_count [OF example_response,
      of "\<lambda>response. ''{}''" example_container "()" "\<lparr>logged = []\<rparr>"]
  by (simp add: mockProducts_def)

end
